theory Spec2Isabelle
  imports Main
begin

section \<open>JavaScript values\<close>

text \<open>
  The values that reach the server inside a parsed JSON request body, and the uniform
  values it sends back. JSON has no \<open>undefined\<close>; an absent field is an absent key.
  Numbers are restricted to the integers. An object is its list of own entries in
  \<open>Object.entries\<close> order.
\<close>

datatype jsval =
    JNull
  | JBool bool
  | JNum int
  | JStr string
  | JArr "jsval list"
  | JObj "(string \<times> jsval) list"

text \<open>
  What a property lookup \<open>v[key]\<close> with a computed key finds: an own value, or a
  member inherited from the prototype chain (\<open>constructor\<close>, \<open>toString\<close>,
  \<open>__proto__\<close>, ...). An inherited member is a built-in function or the prototype
  object itself.
\<close>

datatype member = Own jsval | Inherited

text \<open>
  The parts of the JavaScript engine that the server relies on and that are taken as
  given: the case folding of arbitrary strings (\<open>String.prototype.toLowerCase\<close>), the
  printing of numbers, and the names of the members that a parsed JSON value inherits
  (an object those of \<open>Object.prototype\<close>, an array those of \<open>Array.prototype\<close> and
  of \<open>Object.prototype\<close>). The definitions that depend on them take the engine as
  their first argument, and what is proved of them is proved for all engines.
\<close>

record engine =
  lower_case :: "string \<Rightarrow> string"
  number_toString :: "int \<Rightarrow> string"
  object_prototype :: "string \<Rightarrow> bool"
  array_prototype :: "string \<Rightarrow> bool"

text \<open>Truthiness, as tested by \<open>if (v)\<close>, \<open>!v\<close>, \<open>v || w\<close> and \<open>Boolean(v)\<close>.\<close>

fun truthy :: "jsval \<Rightarrow> bool" where
  "truthy JNull = False"
| "truthy (JBool b) = b"
| "truthy (JNum n) = (n \<noteq> 0)"
| "truthy (JStr s) = (s \<noteq> [])"
| "truthy (JArr xs) = True"
| "truthy (JObj kvs) = True"

text \<open>Truthiness of a value that may be \<open>undefined\<close> (a missing key).\<close>

definition truthy_opt :: "jsval option \<Rightarrow> bool" where
  "truthy_opt v = (case v of None \<Rightarrow> False | Some w \<Rightarrow> truthy w)"

text \<open>Truthiness of what a lookup found: a function or a prototype object is truthy.\<close>

fun truthy_member :: "member \<Rightarrow> bool" where
  "truthy_member (Own w) = truthy w"
| "truthy_member Inherited = True"

fun join_with :: "string \<Rightarrow> string list \<Rightarrow> string" where
  "join_with sep [] = []"
| "join_with sep [x] = x"
| "join_with sep (x # y # ys) = x @ sep @ join_with sep (y # ys)"

text \<open>
  \<open>String(v)\<close>. An array is joined with commas, a \<open>null\<close> element giving the empty
  string there; a plain object gives \<open>[object Object]\<close>.
\<close>

fun js_String :: "engine \<Rightarrow> jsval \<Rightarrow> string" where
  "js_String js JNull = ''null''"
| "js_String js (JBool b) = (if b then ''true'' else ''false'')"
| "js_String js (JNum n) = number_toString js n"
| "js_String js (JStr s) = s"
| "js_String js (JArr xs) =
     join_with '','' (map (\<lambda>x. if x = JNull then [] else js_String js x) xs)"
| "js_String js (JObj kvs) = ''[object Object]''"

text \<open>
  \<open>s.toLowerCase()\<close> on the letters A to Z. It is used where the result is only
  compared with the words done, complete and completed (lines 146, 220 and 221): there it
  decides as the full case folding does, since no character outside A to Z folds to a
  letter of these words. Line 106 compares two arbitrary strings and uses the engine's
  \<open>lower_case\<close>.
\<close>

definition lower_char :: "char \<Rightarrow> char" where
  "lower_char c =
     (case map_of (zip ''ABCDEFGHIJKLMNOPQRSTUVWXYZ'' ''abcdefghijklmnopqrstuvwxyz'') c of
        Some d \<Rightarrow> d
      | None \<Rightarrow> c)"

definition toLowerCase :: "string \<Rightarrow> string" where
  "toLowerCase s = map lower_char s"

text \<open>The decimal numeral of a natural number: the key of an array index.\<close>

definition digit_char :: "nat \<Rightarrow> char" where
  "digit_char d = ''0123456789'' ! d"

fun dec_nat :: "nat \<Rightarrow> string" where
  "dec_nat n = (if n < 10 then [digit_char n] else dec_nat (n div 10) @ [digit_char (n mod 10)])"

declare dec_nat.simps [simp del]

text \<open>
  \<open>Object.entries(v)\<close> for a value that passed \<open>typeof v === 'object'\<close>: the entries
  of an object, the elements of an array under their decimal indices.
\<close>

fun index_from :: "nat \<Rightarrow> 'a list \<Rightarrow> (string \<times> 'a) list" where
  "index_from i [] = []"
| "index_from i (x # xs) = (dec_nat i, x) # index_from (Suc i) xs"

fun js_entries :: "jsval \<Rightarrow> (string \<times> jsval) list" where
  "js_entries (JObj kvs) = kvs"
| "js_entries (JArr xs) = index_from 0 xs"
| "js_entries v = []"

text \<open>
  \<open>v.completed\<close>: \<open>None\<close> is \<open>undefined\<close>. No prototype has a member of this
  name, so the lookup finds an own entry or nothing.
\<close>

definition js_get :: "jsval \<Rightarrow> string \<Rightarrow> jsval option" where
  "js_get v key = map_of (js_entries v) key"

text \<open>\<open>'completed' in v\<close>.\<close>

definition js_in :: "string \<Rightarrow> jsval \<Rightarrow> bool" where
  "js_in key v = (js_get v key \<noteq> None)"

text \<open>
  \<open>v[key]\<close> with a computed key, for an object or an array (the values that pass the
  handlers' test for an object): \<open>None\<close> is \<open>undefined\<close>. An own entry hides an
  inherited member of the same name; an array has its \<open>length\<close> as well.
\<close>

fun js_lookup :: "engine \<Rightarrow> jsval \<Rightarrow> string \<Rightarrow> member option" where
  "js_lookup js (JObj kvs) key =
     (case map_of kvs key of
        Some x \<Rightarrow> Some (Own x)
      | None \<Rightarrow> if object_prototype js key then Some Inherited else None)"
| "js_lookup js (JArr xs) key =
     (case map_of (index_from 0 xs) key of
        Some x \<Rightarrow> Some (Own x)
      | None \<Rightarrow>
          if key = ''length'' then Some (Own (JNum (int (length xs))))
          else if array_prototype js key then Some Inherited
          else None)"
| "js_lookup js v key = None"

text \<open>\<open>typeof v === 'object'\<close> (which holds of \<open>null\<close> too).\<close>

fun is_object :: "jsval \<Rightarrow> bool" where
  "is_object JNull = True"
| "is_object (JArr xs) = True"
| "is_object (JObj kvs) = True"
| "is_object v = False"

section \<open>The external store's data\<close>

text \<open>The \<open>type\<close> tag of a database property; \<open>T_other\<close> is any tag the code has no case for.\<close>

datatype ptype =
    T_title | T_rich_text | T_select | T_multi_select | T_checkbox
  | T_date | T_url | T_number | T_status | T_other

text \<open>
  One entry of \<open>database.properties\<close>: its \<open>type\<close>, and the names of its options
  (\<open>prop.status.options\<close> for a status property, which always carries its
  \<open>status\<close> object in the store's answer). The code reads a missing options array as
  the empty one (\<open>|| []\<close>), so the empty list stands for both.
\<close>

record prop_schema =
  ptype :: ptype
  options :: "string list"

text \<open>
  One entry of \<open>page.properties\<close>, a union tagged by \<open>type\<close>: rich text as the
  \<open>plain_text\<close> of its runs, \<open>None\<close> where the store sends \<open>null\<close>.
\<close>

datatype page_property =
    P_title "string list"
  | P_rich_text "string list"
  | P_select "string option"
  | P_multi_select "string list"
  | P_checkbox bool
  | P_date "string option"
  | P_url "string option"
  | P_number "int option"
  | P_status "string option"
  | P_other

record page =
  page_id :: string
  created_time :: string
  page_properties :: "(string \<times> page_property) list"

text \<open>
  What the server sends for one property in a write. \<open>W_number v\<close> is
  \<open>{ number: Number(v) }\<close> and \<open>W_date v\<close> is \<open>{ date: { start: v } }\<close>, both
  recording the value they were built from. Rich text is the \<open>text.content\<close> of its runs.
\<close>

datatype write_payload =
    W_title "string list"
  | W_rich_text "string list"
  | W_select string
  | W_multi_select "string list"
  | W_checkbox bool
  | W_date jsval
  | W_url string
  | W_number jsval
  | W_status string

section \<open>Property codec (server.js 57--113)\<close>

text \<open>\<open>x?.name || null\<close>: an empty name is falsy and gives \<open>null\<close> as well.\<close>

definition name_or_null :: "string option \<Rightarrow> jsval" where
  "name_or_null x = (case x of None \<Rightarrow> JNull | Some n \<Rightarrow> if n = [] then JNull else JStr n)"

fun extractPropertyValue :: "page_property option \<Rightarrow> jsval" where
  "extractPropertyValue None = JNull"
| "extractPropertyValue (Some (P_title runs)) = JStr (concat runs)"
| "extractPropertyValue (Some (P_rich_text runs)) = JStr (concat runs)"
| "extractPropertyValue (Some (P_select x)) = name_or_null x"
| "extractPropertyValue (Some (P_multi_select xs)) = JArr (map JStr xs)"
| "extractPropertyValue (Some (P_checkbox b)) = JBool b"
| "extractPropertyValue (Some (P_date x)) = name_or_null x"
| "extractPropertyValue (Some (P_url x)) = (case x of None \<Rightarrow> JNull | Some u \<Rightarrow> JStr u)"
| "extractPropertyValue (Some (P_number x)) = (case x of None \<Rightarrow> JNull | Some n \<Rightarrow> JNum n)"
| "extractPropertyValue (Some (P_status x)) = name_or_null x"
| "extractPropertyValue (Some P_other) = JNull"

text \<open>
  The status case of \<open>setPropertyValue\<close> (lines 105--107): the first option whose
  lower-cased name equals the lower-cased \<open>String(value)\<close>; without one, the first option's name unless it is
  missing or empty; without that, \<open>String(value)\<close> itself.
\<close>

definition status_name :: "engine \<Rightarrow> string list \<Rightarrow> jsval \<Rightarrow> string" where
  "status_name js opts v =
     (case find (\<lambda>opt. lower_case js opt = lower_case js (js_String js v)) opts of
        Some m \<Rightarrow> m
      | None \<Rightarrow>
          (case opts of
             [] \<Rightarrow> js_String js v
           | opt # rest \<Rightarrow> if opt \<noteq> [] then opt else js_String js v))"

text \<open>\<open>None\<close> is the \<open>null\<close> the function returns; the property name is not used.\<close>

fun setPropertyValue ::
  "engine \<Rightarrow> string \<Rightarrow> prop_schema \<Rightarrow> jsval \<Rightarrow> write_payload option" where
  "setPropertyValue js propertyName propertySchema JNull = None"
| "setPropertyValue js propertyName propertySchema v =
     (case ptype propertySchema of
        T_title \<Rightarrow> Some (W_title [js_String js v])
      | T_rich_text \<Rightarrow> Some (W_rich_text [js_String js v])
      | T_select \<Rightarrow> Some (W_select (js_String js v))
      | T_multi_select \<Rightarrow>
          Some (W_multi_select
            (case v of JArr xs \<Rightarrow> map (js_String js) xs | _ \<Rightarrow> [js_String js v]))
      | T_checkbox \<Rightarrow> Some (W_checkbox (truthy v))
      | T_date \<Rightarrow> Some (W_date v)
      | T_url \<Rightarrow> Some (W_url (js_String js v))
      | T_number \<Rightarrow> Some (W_number v)
      | T_status \<Rightarrow> Some (W_status (status_name js (options propertySchema) v))
      | T_other \<Rightarrow> None)"

section \<open>Schema cache (server.js 20--55)\<close>

record schema =
  properties :: "(string \<times> prop_schema) list"
  titleProperty :: "string option"
  checkboxProperties :: "string list"
  dateProperties :: "string list"
  selectProperties :: "string list"
  textProperties :: "string list"
  urlProperties :: "string list"
  numberProperties :: "string list"

text \<open>\<open>Object.entries(props).filter(([, prop]) => P(prop.type)).map(([key]) => key)\<close>\<close>

definition keys_where :: "(ptype \<Rightarrow> bool) \<Rightarrow> (string \<times> prop_schema) list \<Rightarrow> string list" where
  "keys_where P props = map fst (filter (\<lambda>(key, prop). P (ptype prop)) props)"

text \<open>The object literal assigned to \<open>databaseSchema\<close>, from \<open>database.properties\<close>.\<close>

definition build_schema :: "(string \<times> prop_schema) list \<Rightarrow> schema" where
  "build_schema props =
     \<lparr> properties = props,
       titleProperty =
         (case find (\<lambda>(key, prop). ptype prop = T_title) props of
            None \<Rightarrow> None
          | Some (key, prop) \<Rightarrow> Some key),
       checkboxProperties = keys_where (\<lambda>t. t = T_checkbox \<or> t = T_status) props,
       dateProperties = keys_where (\<lambda>t. t = T_date) props,
       selectProperties = keys_where (\<lambda>t. t = T_select \<or> t = T_multi_select) props,
       textProperties = keys_where (\<lambda>t. t = T_rich_text) props,
       urlProperties = keys_where (\<lambda>t. t = T_url) props,
       numberProperties = keys_where (\<lambda>t. t = T_number) props \<rparr>"

text \<open>
  The calls the server makes to the external store. The server keeps no such list; the
  model records them so that "no store write" and "no refetch" can be stated.
\<close>

datatype store_call =
    Databases_retrieve
  | Databases_query
  | Pages_create "string \<rightharpoonup> write_payload"
  | Pages_update string "string \<rightharpoonup> write_payload"

text \<open>
  What the external store answers during one request: \<open>None\<close> (or \<open>False\<close>) where the
  client call throws.
\<close>

record notion =
  databases_retrieve :: "(string \<times> prop_schema) list option"
  databases_query :: "page list option"
  pages_create :: "(string \<rightharpoonup> write_payload) \<Rightarrow> page option"
  pages_update :: "string \<Rightarrow> (string \<rightharpoonup> write_payload) \<Rightarrow> bool"

text \<open>The module variable \<open>databaseSchema\<close> (\<open>None\<close> is its initial \<open>null\<close>), and the calls made so far.\<close>

record server_state =
  databaseSchema :: "schema option"
  calls :: "store_call list"

definition log_call :: "store_call \<Rightarrow> server_state \<Rightarrow> server_state" where
  "log_call c st = st\<lparr>calls := calls st @ [c]\<rparr>"

text \<open>What a \<open>throw\<close> carries, as far as the handlers tell it apart: nothing but its origin.\<close>

datatype exn = FetchError | TypeError

definition getDatabaseSchema :: "notion \<Rightarrow> server_state \<Rightarrow> (exn + schema) \<times> server_state" where
  "getDatabaseSchema n st =
     (case databaseSchema st of
        Some cached \<Rightarrow> (Inr cached, st)
      | None \<Rightarrow>
          (let st' = log_call Databases_retrieve st in
           case databases_retrieve n of
             None \<Rightarrow> (Inl FetchError, st')
           | Some props \<Rightarrow>
               (let s = build_schema props in (Inr s, st'\<lparr>databaseSchema := Some s\<rparr>))))"

section \<open>Record translator\<close>

text \<open>\<open>['done','complete','completed'].includes(name.toLowerCase())\<close>\<close>

definition done_like :: "string \<Rightarrow> bool" where
  "done_like name = (toLowerCase name \<in> set [''done'', ''complete'', ''completed''])"

subsection \<open>Read path: the \<open>page => {...}\<close> of GET /api/tasks (server.js 139--149)\<close>

text \<open>
  \<open>title\<close> and \<open>completed\<close> are \<open>None\<close> when the code never assigns them: the
  key is then missing from the JSON that is sent. The lookups of lines 142 and 145 read
  the decoded entries of the page, which carries every property of its database.
\<close>

record item =
  item_id :: string
  createdAt :: string
  item_properties :: "(string \<times> jsval) list"
  title :: "jsval option"
  completed :: "bool option"

definition decoded_properties :: "page \<Rightarrow> (string \<times> jsval) list" where
  "decoded_properties pg =
     map (\<lambda>(key, prop). (key, extractPropertyValue (Some prop))) (page_properties pg)"

text \<open>\<open>v || 'Untitled'\<close> for a \<open>v\<close> that may be \<open>undefined\<close>.\<close>

definition or_untitled :: "jsval option \<Rightarrow> jsval" where
  "or_untitled v =
     (case v of None \<Rightarrow> JStr ''Untitled'' | Some w \<Rightarrow> if truthy w then w else JStr ''Untitled'')"

text \<open>The \<open>typeof val\<close> cascade of line 146.\<close>

definition completed_of :: "jsval option \<Rightarrow> bool" where
  "completed_of val =
     (case val of
        Some (JBool b) \<Rightarrow> b
      | Some (JStr s) \<Rightarrow> done_like s
      | _ \<Rightarrow> False)"

definition toUniform :: "schema \<Rightarrow> page \<Rightarrow> item" where
  "toUniform s pg =
     (let props = decoded_properties pg in
      \<lparr> item_id = page_id pg,
        createdAt = created_time pg,
        item_properties = props,
        title =
          (case titleProperty s of
             None \<Rightarrow> None
           | Some t \<Rightarrow> if t = [] then None else Some (or_untitled (map_of props t))),
        completed =
          (case checkboxProperties s of
             [] \<Rightarrow> None
           | checkboxProp # rest \<Rightarrow>
               if checkboxProp = [] then None
               else Some (completed_of (map_of props checkboxProp))) \<rparr>)"

subsection \<open>Write path: the \<open>forEach\<close> of POST (172--182) and of PATCH (208--213)\<close>

text \<open>
  \<open>schema.properties[key]\<close> is looked up among the schema's own entries. A key that
  names only an inherited member finds a function or a prototype object there, which has
  no \<open>type\<close>: \<open>setPropertyValue\<close> returns \<open>null\<close> for it and the key is dropped, as
  it is when the lookup finds nothing.
\<close>

definition create_step ::
  "engine \<Rightarrow> schema \<Rightarrow> (string \<rightharpoonup> write_payload) \<Rightarrow> string \<times> jsval \<Rightarrow>
     (string \<rightharpoonup> write_payload)" where
  "create_step js s notionProps kv =
     (case kv of (key, v) \<Rightarrow>
        if v = JStr [] \<and> Some key \<noteq> titleProperty s then notionProps
        else
          (case map_of (properties s) key of
             None \<Rightarrow> notionProps
           | Some propSchema \<Rightarrow>
               (case setPropertyValue js key propSchema v of
                  None \<Rightarrow> notionProps
                | Some formatted \<Rightarrow> notionProps(key \<mapsto> formatted))))"

definition toWritePayload_create ::
  "engine \<Rightarrow> schema \<Rightarrow> jsval \<Rightarrow> (string \<rightharpoonup> write_payload)" where
  "toWritePayload_create js s props = foldl (create_step js s) Map.empty (js_entries props)"

definition update_step ::
  "engine \<Rightarrow> schema \<Rightarrow> (string \<rightharpoonup> write_payload) \<Rightarrow> string \<times> jsval \<Rightarrow>
     (string \<rightharpoonup> write_payload)" where
  "update_step js s notionProps kv =
     (case kv of (key, v) \<Rightarrow>
        (case map_of (properties s) key of
           None \<Rightarrow> notionProps
         | Some propSchema \<Rightarrow>
             (case setPropertyValue js key propSchema v of
                None \<Rightarrow> notionProps
              | Some formatted \<Rightarrow> notionProps(key \<mapsto> formatted))))"

definition toWritePayload_update ::
  "engine \<Rightarrow> schema \<Rightarrow> jsval \<Rightarrow> (string \<rightharpoonup> write_payload)" where
  "toWritePayload_update js s props = foldl (update_step js s) Map.empty (js_entries props)"

subsection \<open>The completed flag of PATCH (server.js 214--224)\<close>

text \<open>
  The name written to a status property (line 222), from the option names and the
  truthiness of \<open>properties.completed\<close>. \<open>done[0].name\<close> with no done-like option
  reads a field of \<open>undefined\<close> and throws.
\<close>

definition completed_status_name :: "string list \<Rightarrow> bool \<Rightarrow> exn + string" where
  "completed_status_name opts flag =
     (let done = filter done_like opts;
          notDone = filter (\<lambda>opt. \<not> done_like opt) opts;
          first_done = (case done of [] \<Rightarrow> Inl TypeError | d # ds \<Rightarrow> Inr d)
      in if flag \<and> done \<noteq> [] then first_done
         else
           (case notDone of
              [] \<Rightarrow> first_done
            | nd # nds \<Rightarrow> if nd \<noteq> [] then Inr nd else first_done))"

definition applyCompletedFlag ::
  "schema \<Rightarrow> jsval \<Rightarrow> (string \<rightharpoonup> write_payload) \<Rightarrow> exn + (string \<rightharpoonup> write_payload)" where
  "applyCompletedFlag s props notionProps =
     (if js_in ''completed'' props then
        (case checkboxProperties s of
           [] \<Rightarrow> Inr notionProps
         | cb # rest \<Rightarrow>
             (case map_of (properties s) cb of
                None \<Rightarrow> Inl TypeError
              | Some ps \<Rightarrow>
                  if ptype ps = T_checkbox then
                    Inr (notionProps(cb \<mapsto> W_checkbox (truthy_opt (js_get props ''completed''))))
                  else if ptype ps = T_status then
                    (case completed_status_name (options ps) (truthy_opt (js_get props ''completed'')) of
                       Inl e \<Rightarrow> Inl e
                     | Inr name \<Rightarrow> Inr (notionProps(cb \<mapsto> W_status name)))
                  else Inr notionProps))
      else Inr notionProps)"

section \<open>Request handlers\<close>

text \<open>
  The three handlers that translate records. GET /api/schema and DELETE /api/tasks/:id
  translate nothing and are left out. A handler takes the store's answers for this
  request and the server state, and returns its response with the new state.

  The JSON bodies of the responses. The three rejections of POST are told apart by their
  message in the code: \<open>MissingTitleProperty\<close> is "Database must have a title property",
  \<open>PropertiesRequired\<close> is "Properties object is required", and \<open>MissingTitleValue t\<close> is
  "Title property t is required". The \<open>Failed_\<close> bodies are those of the \<open>catch\<close> blocks.
\<close>

datatype body =
    MissingTitleProperty
  | PropertiesRequired
  | MissingTitleValue string
  | Failed_to_fetch
  | Failed_to_create
  | Failed_to_update
  | Items "item list"
  | Created string member string jsval
  | Updated string jsval

type_synonym response = "nat \<times> body"

text \<open>\<open>!properties || typeof properties !== 'object'\<close>, for a field that may be missing.\<close>

definition no_properties_object :: "jsval option \<Rightarrow> bool" where
  "no_properties_object p = (case p of None \<Rightarrow> True | Some v \<Rightarrow> \<not> truthy v \<or> \<not> is_object v)"

text \<open>GET /api/tasks (server.js 134--155).\<close>

definition get_tasks :: "notion \<Rightarrow> server_state \<Rightarrow> response \<times> server_state" where
  "get_tasks n st =
     (case getDatabaseSchema n st of
        (Inl e, st1) \<Rightarrow> ((500, Failed_to_fetch), st1)
      | (Inr s, st1) \<Rightarrow>
          (let st2 = log_call Databases_query st1 in
           case databases_query n of
             None \<Rightarrow> ((500, Failed_to_fetch), st2)
           | Some results \<Rightarrow> ((200, Items (map (toUniform s) results)), st2)))"

text \<open>
  POST /api/tasks (server.js 158--199). The argument \<open>body_properties\<close> is the
  \<open>properties\<close> field of the request body. The \<open>Created\<close> body is
  \<open>{id, title, createdAt, properties}\<close>, its title being what the lookup
  \<open>properties[schema.titleProperty]\<close> found.
\<close>

definition post_tasks ::
  "engine \<Rightarrow> notion \<Rightarrow> jsval option \<Rightarrow> server_state \<Rightarrow> response \<times> server_state" where
  "post_tasks js n body_properties st =
     (case getDatabaseSchema n st of
        (Inl e, st1) \<Rightarrow> ((500, Failed_to_create), st1)
      | (Inr s, st1) \<Rightarrow>
          (case titleProperty s of
             None \<Rightarrow> ((400, MissingTitleProperty), st1)
           | Some t \<Rightarrow>
               if t = [] then ((400, MissingTitleProperty), st1)
               else
                 (case body_properties of
                    None \<Rightarrow> ((400, PropertiesRequired), st1)
                  | Some props \<Rightarrow>
                      if no_properties_object (Some props) then ((400, PropertiesRequired), st1)
                      else
                        (case js_lookup js props t of
                           None \<Rightarrow> ((400, MissingTitleValue t), st1)
                         | Some tv \<Rightarrow>
                             if \<not> truthy_member tv then ((400, MissingTitleValue t), st1)
                             else
                               (let notionProps = toWritePayload_create js s props;
                                    st2 = log_call (Pages_create notionProps) st1
                                in case pages_create n notionProps of
                                     None \<Rightarrow> ((500, Failed_to_create), st2)
                                   | Some created \<Rightarrow>
                                       ((201, Created (page_id created) tv (created_time created) props),
                                        st2))))))"

text \<open>PATCH /api/tasks/:id (server.js 202--231). The \<open>Updated\<close> body is \<open>{id, updated: true, properties}\<close>.\<close>

definition patch_tasks ::
  "engine \<Rightarrow> notion \<Rightarrow> string \<Rightarrow> jsval option \<Rightarrow> server_state \<Rightarrow>
     response \<times> server_state" where
  "patch_tasks js n pid body_properties st =
     (case body_properties of
        None \<Rightarrow> ((400, PropertiesRequired), st)
      | Some props \<Rightarrow>
          if no_properties_object (Some props) then ((400, PropertiesRequired), st)
          else
            (case getDatabaseSchema n st of
               (Inl e, st1) \<Rightarrow> ((500, Failed_to_update), st1)
             | (Inr s, st1) \<Rightarrow>
                 (case applyCompletedFlag s props (toWritePayload_update js s props) of
                    Inl e \<Rightarrow> ((500, Failed_to_update), st1)
                  | Inr notionProps \<Rightarrow>
                      (let st2 = log_call (Pages_update pid notionProps) st1
                       in if pages_update n pid notionProps
                          then ((200, Updated pid props), st2)
                          else ((500, Failed_to_update), st2)))))"

section \<open>Notions used to state the properties\<close>

text \<open>
  The keys a write request is said to keep: those with a property definition whose
  encoding is not \<open>null\<close>, where \<open>skip_empty\<close> also drops every key whose value is the
  empty string unless it is the title property.
\<close>

definition requested_keys :: "engine \<Rightarrow> bool \<Rightarrow> schema \<Rightarrow> jsval \<Rightarrow> string set" where
  "requested_keys js skip_empty s props =
     set (map fst (filter
       (\<lambda>(key, v).
          (case map_of (properties s) key of
             None \<Rightarrow> False
           | Some propSchema \<Rightarrow> setPropertyValue js key propSchema v \<noteq> None)
          \<and> \<not> (skip_empty \<and> v = JStr [] \<and> Some key \<noteq> titleProperty s))
       (js_entries props)))"

text \<open>The string content of a title or rich-text payload: its runs, concatenated.\<close>

fun payload_content :: "write_payload \<Rightarrow> string option" where
  "payload_content (W_title runs) = Some (concat runs)"
| "payload_content (W_rich_text runs) = Some (concat runs)"
| "payload_content w = None"

text \<open>
  An engine for the examples. It folds the letters A to Z and prints an integer as its
  decimal numeral, as Node.js does on the ASCII strings and the small numbers of the
  examples, and it has the member names of the two prototypes as of ECMAScript 2023.
\<close>

definition dec_int :: "int \<Rightarrow> string" where
  "dec_int i = (if i < 0 then CHR ''-'' # dec_nat (nat (- i)) else dec_nat (nat i))"

definition object_prototype_names :: "string list" where
  "object_prototype_names =
     [''constructor'', ''__defineGetter__'', ''__defineSetter__'', ''hasOwnProperty'',
      ''__lookupGetter__'', ''__lookupSetter__'', ''isPrototypeOf'', ''propertyIsEnumerable'',
      ''toString'', ''valueOf'', ''__proto__'', ''toLocaleString'']"

definition array_prototype_names :: "string list" where
  "array_prototype_names =
     [''at'', ''concat'', ''copyWithin'', ''entries'', ''every'', ''fill'', ''filter'', ''find'',
      ''findIndex'', ''findLast'', ''findLastIndex'', ''flat'', ''flatMap'', ''forEach'',
      ''includes'', ''indexOf'', ''join'', ''keys'', ''lastIndexOf'', ''map'', ''pop'', ''push'',
      ''reduce'', ''reduceRight'', ''reverse'', ''shift'', ''slice'', ''some'', ''sort'', ''splice'',
      ''toReversed'', ''toSorted'', ''toSpliced'', ''unshift'', ''values'', ''with'']"

definition example_engine :: engine where
  "example_engine =
     \<lparr> lower_case = toLowerCase,
       number_toString = dec_int,
       object_prototype = (\<lambda>key. key \<in> set object_prototype_names),
       array_prototype = (\<lambda>key. key \<in> set (array_prototype_names @ object_prototype_names)) \<rparr>"

text \<open>A database with a title, a status with the choices Todo and Done, and a text column.\<close>

definition example_database :: "(string \<times> prop_schema) list" where
  "example_database =
     [(''Name'', \<lparr>ptype = T_title, options = []\<rparr>),
      (''Status'', \<lparr>ptype = T_status, options = [''Todo'', ''Done'']\<rparr>),
      (''Notes'', \<lparr>ptype = T_rich_text, options = []\<rparr>)]"

definition example_schema :: schema where
  "example_schema = build_schema example_database"


text \<open>A page of that database: a title in two runs, the status Done, empty notes.\<close>

definition example_page :: page where
  "example_page = \<lparr> page_id = ''p1'', created_time = ''2024-01-01T00:00:00.000Z'',
      page_properties = [(''Name'', P_title [''Buy '', ''milk'']), (''Status'', P_status (Some ''Done'')),
         (''Notes'', P_rich_text [])] \<rparr>"

text \<open>
  A store that answers every call, one whose schema retrieval fails, and the server
  before its first request.
\<close>

definition example_notion :: notion where
  "example_notion =
     \<lparr> databases_retrieve = Some example_database,
       databases_query = Some [example_page],
       pages_create = (\<lambda>notionProps. Some (example_page\<lparr>page_properties := []\<rparr>)),
       pages_update = (\<lambda>pid notionProps. True) \<rparr>"

definition failing_notion :: notion where
  "failing_notion = example_notion\<lparr>databases_retrieve := None\<rparr>"

definition initial_state :: server_state where
  "initial_state = \<lparr> databaseSchema = None, calls = [] \<rparr>"

text \<open>A database whose title column is named \<open>constructor\<close>, and a store that has it.\<close>

definition constructor_database :: "(string \<times> prop_schema) list" where
  "constructor_database =
     [(''constructor'', \<lparr>ptype = T_title, options = []\<rparr>),
      (''Notes'', \<lparr>ptype = T_rich_text, options = []\<rparr>)]"

definition constructor_notion :: notion where
  "constructor_notion = example_notion\<lparr>databases_retrieve := Some constructor_database\<rparr>"

text \<open>
  A request with a title, an empty text value, a key the schema does not have, and a
  \<open>null\<close> value.
\<close>

definition example_request :: jsval where
  "example_request =
     JObj [(''Name'', JStr ''Buy milk''), (''Notes'', JStr []), (''Owner'', JStr ''me''),
           (''Status'', JNull)]"

section \<open>Evaluation lemmas\<close>

lemma example_schema_simps:
  "properties example_schema =
     [(''Name'', \<lparr>ptype = T_title, options = []\<rparr>),
      (''Status'', \<lparr>ptype = T_status, options = [''Todo'', ''Done'']\<rparr>),
      (''Notes'', \<lparr>ptype = T_rich_text, options = []\<rparr>)]"
  "titleProperty example_schema = Some ''Name''"
  "checkboxProperties example_schema = [''Status'']"
  by (simp_all add: example_schema_def example_database_def build_schema_def keys_where_def)


lemma example_engine_simps:
  "lower_case example_engine = toLowerCase"
  "number_toString example_engine = dec_int"
  "object_prototype example_engine key = (key \<in> set object_prototype_names)"
  "array_prototype example_engine key = (key \<in> set (array_prototype_names @ object_prototype_names))"
  by (simp_all add: example_engine_def)

lemmas eval_defs = done_like_def toLowerCase_def lower_char_def truthy_opt_def js_get_def js_in_def

lemma example_getDatabaseSchema:
  "getDatabaseSchema example_notion initial_state =
     (Inr example_schema,
      \<lparr> databaseSchema = Some example_schema, calls = [Databases_retrieve] \<rparr>)"
  by (simp add: getDatabaseSchema_def example_notion_def initial_state_def log_call_def
      example_schema_def Let_def)

section \<open>The completed flag on a status property\<close>




section \<open>The read path\<close>







section \<open>The codec\<close>



text \<open>
  C8. Decoding a raw title or rich-text value gives the concatenation of its runs, and
  encoding that string for a title or rich-text property gives a payload of one run
  whose content is the same string.
\<close>

theorem text_round_trip:
  assumes "raw = P_title runs \<or> raw = P_rich_text runs"
    and "ptype ps = T_title \<or> ptype ps = T_rich_text"
  shows "extractPropertyValue (Some raw) = JStr (concat runs)
     \<and> setPropertyValue js pn ps (extractPropertyValue (Some raw)) =
         Some (if ptype ps = T_title then W_title [concat runs] else W_rich_text [concat runs])
     \<and> map_option payload_content (setPropertyValue js pn ps (extractPropertyValue (Some raw))) =
         Some (Some (concat runs))"
  using assms by auto

text \<open>The theorem at a title of two runs and at a rich text with no run.\<close>

theorem text_round_trip_witness:
  "setPropertyValue example_engine ''Name'' \<lparr>ptype = T_title, options = []\<rparr>
       (extractPropertyValue (Some (P_title [''Buy '', ''milk''])))
     = Some (W_title [''Buy milk''])
   \<and> setPropertyValue example_engine ''Notes'' \<lparr>ptype = T_rich_text, options = []\<rparr>
       (extractPropertyValue (Some (P_rich_text [])))
     = Some (W_rich_text [[]])"
proof -
  have a: "P_title [''Buy '', ''milk''] = P_title [''Buy '', ''milk''] \<or>
           P_title [''Buy '', ''milk''] = P_rich_text [''Buy '', ''milk'']" by simp
  have b: "ptype \<lparr>ptype = T_title, options = []\<rparr> = T_title \<or>
           ptype \<lparr>ptype = T_title, options = []\<rparr> = T_rich_text" by simp
  have c: "P_rich_text [] = P_title [] \<or> P_rich_text [] = P_rich_text []" by simp
  have d: "ptype \<lparr>ptype = T_rich_text, options = []\<rparr> = T_title \<or>
           ptype \<lparr>ptype = T_rich_text, options = []\<rparr> = T_rich_text" by simp
  from text_round_trip [OF a b, where pn = "''Name''" and js = example_engine]
       text_round_trip [OF c d, where pn = "''Notes''" and js = example_engine]
  show ?thesis by simp
qed

section \<open>The write path\<close>

lemma dom_create_step:
  "dom (create_step js s m (key, v)) =
     dom m \<union> (if (case map_of (properties s) key of
                    None \<Rightarrow> False
                  | Some propSchema \<Rightarrow> setPropertyValue js key propSchema v \<noteq> None)
                 \<and> \<not> (True \<and> v = JStr [] \<and> Some key \<noteq> titleProperty s)
               then {key} else {})"
  by (auto simp: create_step_def split: option.splits)

lemma dom_update_step:
  "dom (update_step js s m (key, v)) =
     dom m \<union> (if (case map_of (properties s) key of
                    None \<Rightarrow> False
                  | Some propSchema \<Rightarrow> setPropertyValue js key propSchema v \<noteq> None)
                 \<and> \<not> (False \<and> v = JStr [] \<and> Some key \<noteq> titleProperty s)
               then {key} else {})"
  by (auto simp: update_step_def split: option.splits)

lemma dom_foldl_create_step:
  "dom (foldl (create_step js s) m kvs) = dom m \<union> requested_keys js True s (JObj kvs)"
proof (induction kvs arbitrary: m)
  case Nil
  then show ?case by (simp add: requested_keys_def)
next
  case (Cons kv kvs)
  obtain key v where kv: "kv = (key, v)" by (cases kv)
  show ?case
    unfolding kv foldl_Cons Cons.IH dom_create_step
    by (auto simp: requested_keys_def)
qed

lemma dom_foldl_update_step:
  "dom (foldl (update_step js s) m kvs) = dom m \<union> requested_keys js False s (JObj kvs)"
proof (induction kvs arbitrary: m)
  case Nil
  then show ?case by (simp add: requested_keys_def)
next
  case (Cons kv kvs)
  obtain key v where kv: "kv = (key, v)" by (cases kv)
  show ?case
    unfolding kv foldl_Cons Cons.IH dom_update_step
    by (auto simp: requested_keys_def)
qed

lemma requested_keys_entries:
  "requested_keys js b s props = requested_keys js b s (JObj (js_entries props))"
  by (simp add: requested_keys_def)

text \<open>
  The keys each loop keeps. The create loop (POST) keeps exactly the requested keys that
  have a property definition in the schema, whose encoding is not \<open>null\<close>, and whose
  value is not the empty string unless the key is the title property. The update loop
  (PATCH) has no test for the empty string: it keeps exactly the requested keys that
  have a property definition and whose encoding is not \<open>null\<close>.
\<close>

lemma dom_toWritePayload:
  "dom (toWritePayload_create js s props) = requested_keys js True s props
   \<and> dom (toWritePayload_update js s props) = requested_keys js False s props"
proof -
  have "dom (toWritePayload_create js s props) = requested_keys js True s (JObj (js_entries props))"
    by (simp add: toWritePayload_create_def dom_foldl_create_step)
  moreover
  have "dom (toWritePayload_update js s props) = requested_keys js False s (JObj (js_entries props))"
    by (simp add: toWritePayload_update_def dom_foldl_update_step)
  ultimately show ?thesis
    using requested_keys_entries [of js True s props] requested_keys_entries [of js False s props]
    by simp
qed

text \<open>
  C4. The claim holds of the create loop and fails on the update loop, which lacks the
  test that the create loop makes under the comment "Skip empty string values except for
  title" (server.js 174--175). On the example database, the request properties
  \<open>{Notes: ""}\<close> give an empty payload when creating, but when updating they give a
  payload with the key Notes, an empty rich-text run, and the PATCH handler sends it to
  the store.
\<close>

theorem toWritePayload_update_empty_string:
  "toWritePayload_create example_engine example_schema (JObj [(''Notes'', JStr [])]) = Map.empty
   \<and> toWritePayload_update example_engine example_schema (JObj [(''Notes'', JStr [])])
       = [''Notes'' \<mapsto> W_rich_text [[]]]
   \<and> patch_tasks example_engine example_notion ''p1'' (Some (JObj [(''Notes'', JStr [])])) initial_state
       = ((200, Updated ''p1'' (JObj [(''Notes'', JStr [])])),
          \<lparr> databaseSchema = Some example_schema,
            calls = [Databases_retrieve, Pages_update ''p1'' [''Notes'' \<mapsto> W_rich_text [[]]]] \<rparr>)"
proof -
  let ?props = "JObj [(''Notes'', JStr [])]"
  have c: "toWritePayload_create example_engine example_schema ?props = Map.empty"
    by (simp add: toWritePayload_create_def create_step_def example_schema_simps)
  have u: "toWritePayload_update example_engine example_schema ?props = [''Notes'' \<mapsto> W_rich_text [[]]]"
    by (simp add: toWritePayload_update_def update_step_def example_schema_simps)
  have p: "\<not> no_properties_object (Some ?props)"
    by (simp add: no_properties_object_def)
  have f: "applyCompletedFlag example_schema ?props np = Inr np" for np
    by (simp add: applyCompletedFlag_def js_in_def js_get_def)
  have a: "pages_update example_notion pid np" for pid np
    by (simp add: example_notion_def)
  have h: "patch_tasks example_engine example_notion ''p1'' (Some ?props) initial_state
       = ((200, Updated ''p1'' ?props),
          \<lparr> databaseSchema = Some example_schema,
            calls = [Databases_retrieve, Pages_update ''p1'' [''Notes'' \<mapsto> W_rich_text [[]]]] \<rparr>)"
    unfolding patch_tasks_def example_getDatabaseSchema
    by (simp add: p u f a log_call_def)
  from c u h show ?thesis by blast
qed

text \<open>
  C9. The completed-flag step returns the payload unchanged when the request has no
  \<open>completed\<close> key or the schema has no boolean-like property; and whenever it returns
  a payload, every key other than the schema's first boolean-like property maps to what
  it mapped to before. (When the step throws, no payload is produced and nothing is
  written.)
\<close>

theorem applyCompletedFlag_frame:
  "(\<not> js_in ''completed'' props \<or> checkboxProperties s = [] \<longrightarrow>
      applyCompletedFlag s props np = Inr np)
   \<and> (\<forall>np'. applyCompletedFlag s props np = Inr np' \<longrightarrow>
        (\<forall>key. (\<forall>rest. checkboxProperties s \<noteq> key # rest) \<longrightarrow> np' key = np key))"
proof -
  have a: "\<not> js_in ''completed'' props \<or> checkboxProperties s = [] \<longrightarrow>
      applyCompletedFlag s props np = Inr np"
    by (auto simp: applyCompletedFlag_def)
  have b: "\<forall>np'. applyCompletedFlag s props np = Inr np' \<longrightarrow>
        (\<forall>key. (\<forall>rest. checkboxProperties s \<noteq> key # rest) \<longrightarrow> np' key = np key)"
    by (auto simp: applyCompletedFlag_def split: if_splits list.splits option.splits sum.splits)
  from a b show ?thesis by blast
qed

text \<open>
  The theorem at a payload with a text entry: without \<open>completed\<close> it comes back as it
  was; with \<open>completed\<close> the text entry and the absent title entry are as before.
\<close>

theorem applyCompletedFlag_frame_witness:
  "applyCompletedFlag example_schema (JObj [(''Notes'', JStr ''x'')])
      [''Notes'' \<mapsto> W_rich_text [''x'']] = Inr [''Notes'' \<mapsto> W_rich_text [''x'']]
   \<and> (\<exists>np'. applyCompletedFlag example_schema (JObj [(''completed'', JBool True)])
         [''Notes'' \<mapsto> W_rich_text [''x'']] = Inr np'
        \<and> np' ''Notes'' = Some (W_rich_text [''x'']) \<and> np' ''Name'' = None)"
proof -
  let ?np = "[''Notes'' \<mapsto> W_rich_text [''x'']]"
  have h: "\<not> js_in ''completed'' (JObj [(''Notes'', JStr ''x'')])"
    by (simp add: js_in_def js_get_def)
  from applyCompletedFlag_frame [of "JObj [(''Notes'', JStr ''x'')]" example_schema ?np] h
  have r1: "applyCompletedFlag example_schema (JObj [(''Notes'', JStr ''x'')]) ?np = Inr ?np"
    by blast
  have run: "applyCompletedFlag example_schema (JObj [(''completed'', JBool True)]) ?np
      = Inr (?np(''Status'' \<mapsto> W_status ''Done''))"
    by (simp add: applyCompletedFlag_def example_schema_simps completed_status_name_def eval_defs)
  have k1: "\<forall>rest. checkboxProperties example_schema \<noteq> ''Notes'' # rest"
    by (simp add: example_schema_simps)
  have k2: "\<forall>rest. checkboxProperties example_schema \<noteq> ''Name'' # rest"
    by (simp add: example_schema_simps)
  from applyCompletedFlag_frame [of "JObj [(''completed'', JBool True)]" example_schema ?np] run k1 k2
  have "(?np(''Status'' \<mapsto> W_status ''Done'')) ''Notes'' = ?np ''Notes''
      \<and> (?np(''Status'' \<mapsto> W_status ''Done'')) ''Name'' = ?np ''Name''"
    by blast
  with run have r2: "\<exists>np'. applyCompletedFlag example_schema (JObj [(''completed'', JBool True)]) ?np = Inr np'
        \<and> np' ''Notes'' = Some (W_rich_text [''x'']) \<and> np' ''Name'' = None"
    by simp
  from r1 r2 show ?thesis by blast
qed

section \<open>Creating a record\<close>

lemma getDatabaseSchema_calls:
  "calls (snd (getDatabaseSchema n st)) = calls st
   \<or> calls (snd (getDatabaseSchema n st)) = calls st @ [Databases_retrieve]"
  by (simp add: getDatabaseSchema_def log_call_def Let_def split: option.splits)

lemma titleProperty_build_schema_None:
  "(titleProperty (build_schema props) = None) = (\<forall>kp \<in> set props. ptype (snd kp) \<noteq> T_title)"
proof -
  have "(titleProperty (build_schema props) = None)
      = (find (\<lambda>(key, prop). ptype prop = T_title) props = None)"
    by (simp add: build_schema_def split: option.splits prod.splits)
  also have "\<dots> = (\<forall>kp \<in> set props. ptype (snd kp) \<noteq> T_title)"
    by (auto simp: find_None_iff case_prod_beta)
  finally show ?thesis .
qed

text \<open>
  What the POST handler rejects. Let the schema be available (cached, or retrieved now).
  If it has no title property (for a schema built from the database: no property of type
  title), the request is rejected with \<open>MissingTitleProperty\<close>, whatever it carries. If
  it has a title property and the lookup of that name in the request's properties object
  finds nothing, or a falsy value such as the empty string, the request is rejected with
  \<open>MissingTitleValue\<close>; so is the empty properties object when the name of the title
  property is not the name of a member of \<open>Object.prototype\<close>. In each case the state
  after the request is the state after obtaining the schema: the only call made to the
  store, if any, is the retrieval of the schema, and no page is created.
\<close>

lemma post_tasks_rejects:
  assumes "getDatabaseSchema n st = (Inr s, st1)"
  shows "(titleProperty s = None \<or> titleProperty s = Some [] \<longrightarrow>
            post_tasks js n body_properties st = ((400, MissingTitleProperty), st1))
     \<and> (\<forall>dbprops. s = build_schema dbprops \<and> (\<forall>kp \<in> set dbprops. ptype (snd kp) \<noteq> T_title) \<longrightarrow>
            post_tasks js n body_properties st = ((400, MissingTitleProperty), st1))
     \<and> (\<forall>t props. titleProperty s = Some t \<and> t \<noteq> [] \<and> body_properties = Some props
            \<and> \<not> no_properties_object body_properties
            \<and> (js_lookup js props t = None
                \<or> (\<exists>tv. js_lookup js props t = Some (Own tv) \<and> \<not> truthy tv)) \<longrightarrow>
            post_tasks js n body_properties st = ((400, MissingTitleValue t), st1))
     \<and> (\<forall>t. titleProperty s = Some t \<and> t \<noteq> [] \<and> \<not> object_prototype js t
            \<and> body_properties = Some (JObj []) \<longrightarrow>
            post_tasks js n body_properties st = ((400, MissingTitleValue t), st1))
     \<and> (calls st1 = calls st \<or> calls st1 = calls st @ [Databases_retrieve])"
proof -
  have a: "titleProperty s = None \<or> titleProperty s = Some [] \<longrightarrow>
            post_tasks js n body_properties st = ((400, MissingTitleProperty), st1)"
    using assms by (auto simp: post_tasks_def)
  have b: "\<forall>dbprops. s = build_schema dbprops \<and> (\<forall>kp \<in> set dbprops. ptype (snd kp) \<noteq> T_title) \<longrightarrow>
            post_tasks js n body_properties st = ((400, MissingTitleProperty), st1)"
    using a titleProperty_build_schema_None by blast
  have c: "\<forall>t props. titleProperty s = Some t \<and> t \<noteq> [] \<and> body_properties = Some props
            \<and> \<not> no_properties_object body_properties
            \<and> (js_lookup js props t = None
                \<or> (\<exists>tv. js_lookup js props t = Some (Own tv) \<and> \<not> truthy tv)) \<longrightarrow>
            post_tasks js n body_properties st = ((400, MissingTitleValue t), st1)"
    using assms by (auto simp: post_tasks_def split: option.splits)
  have d: "\<forall>t. titleProperty s = Some t \<and> t \<noteq> [] \<and> \<not> object_prototype js t
            \<and> body_properties = Some (JObj []) \<longrightarrow>
            post_tasks js n body_properties st = ((400, MissingTitleValue t), st1)"
    using assms by (auto simp: post_tasks_def no_properties_object_def)
  have e: "calls st1 = calls st \<or> calls st1 = calls st @ [Databases_retrieve]"
    using getDatabaseSchema_calls [of n st] assms by simp
  from a b c d e show ?thesis by blast
qed

text \<open>
  On the example database the empty properties object and an empty title are rejected.
\<close>

lemma post_tasks_rejects_example:
  "post_tasks example_engine example_notion (Some (JObj [])) initial_state =
     ((400, MissingTitleValue ''Name''),
      \<lparr> databaseSchema = Some example_schema, calls = [Databases_retrieve] \<rparr>)
   \<and> post_tasks example_engine example_notion
        (Some (JObj [(''Name'', JStr []), (''Notes'', JStr ''x'')])) initial_state =
     ((400, MissingTitleValue ''Name''),
      \<lparr> databaseSchema = Some example_schema, calls = [Databases_retrieve] \<rparr>)"
proof -
  let ?st1 = "\<lparr> databaseSchema = Some example_schema, calls = [Databases_retrieve] \<rparr>"
  note g = example_getDatabaseSchema
  have t: "titleProperty example_schema = Some ''Name''" "''Name'' \<noteq> []"
    "\<not> object_prototype example_engine ''Name''"
    by (simp_all add: example_schema_simps example_engine_simps object_prototype_names_def)
  from post_tasks_rejects [OF g, of example_engine "Some (JObj [])"] t
  have r1: "post_tasks example_engine example_notion (Some (JObj [])) initial_state =
     ((400, MissingTitleValue ''Name''), ?st1)"
    by blast
  let ?props = "JObj [(''Name'', JStr []), (''Notes'', JStr ''x'')]"
  have p: "\<not> no_properties_object (Some ?props)"
    "js_lookup example_engine ?props ''Name'' = Some (Own (JStr []))" "\<not> truthy (JStr [])"
    by (simp_all add: no_properties_object_def)
  from post_tasks_rejects [OF g, of example_engine "Some ?props"] t p
  have r2: "post_tasks example_engine example_notion (Some ?props) initial_state =
     ((400, MissingTitleValue ''Name''), ?st1)"
    by blast
  from r1 r2 show ?thesis by blast
qed

text \<open>
  C5. The claim fails on the code where the title property bears the name of a member
  that every object inherits, such as \<open>constructor\<close>. The handler means to reject a
  request without a title (its comment at line 167, "Only require the title property to
  be filled", and its message "Title property ... is required"), but its test at line 168
  reads \<open>properties[schema.titleProperty]\<close>, which finds the inherited member and is
  truthy. On a database whose title property is named \<open>constructor\<close>, the empty
  properties object is not rejected: the page is created with an empty payload and the
  response is 201.
\<close>

theorem post_tasks_inherited_title:
  "post_tasks example_engine constructor_notion (Some (JObj [])) initial_state =
     ((201, Created ''p1'' Inherited ''2024-01-01T00:00:00.000Z'' (JObj [])),
      \<lparr> databaseSchema = Some (build_schema constructor_database),
        calls = [Databases_retrieve, Pages_create Map.empty] \<rparr>)"
proof -
  have g: "getDatabaseSchema constructor_notion initial_state =
      (Inr (build_schema constructor_database),
       \<lparr> databaseSchema = Some (build_schema constructor_database), calls = [Databases_retrieve] \<rparr>)"
    by (simp add: getDatabaseSchema_def constructor_notion_def example_notion_def initial_state_def
        log_call_def Let_def)
  have t: "titleProperty (build_schema constructor_database) = Some ''constructor''"
    by (simp add: build_schema_def constructor_database_def)
  have w: "toWritePayload_create example_engine s (JObj []) = Map.empty" for s
    by (simp add: toWritePayload_create_def)
  have pc: "pages_create constructor_notion np = Some (example_page\<lparr>page_properties := []\<rparr>)" for np
    by (simp add: constructor_notion_def example_notion_def)
  show ?thesis
    unfolding post_tasks_def g
    by (simp add: t w pc no_properties_object_def log_call_def example_page_def
        example_engine_simps object_prototype_names_def)
qed

text \<open>
  C10. Every 201 response of the POST handler carries the request's own properties
  object and, as its title, what the lookup of the title property in that object found
  (the value the request gave under it), both unchanged; only its id and its creation
  time are read from the page the store returned, and the properties on that page are
  not used.
\<close>

theorem post_tasks_created:
  assumes "post_tasks js n body_properties st = ((201, b), st')"
  shows "\<exists>props s st1 t tv created.
           body_properties = Some props
         \<and> getDatabaseSchema n st = (Inr s, st1)
         \<and> titleProperty s = Some t
         \<and> js_lookup js props t = Some tv
         \<and> pages_create n (toWritePayload_create js s props) = Some created
         \<and> b = Created (page_id created) tv (created_time created) props
         \<and> st' = log_call (Pages_create (toWritePayload_create js s props)) st1"
  using assms
  by (auto simp: post_tasks_def Let_def split: prod.splits sum.splits option.splits if_splits)

text \<open>
  The theorem at a store that returns a page without properties: the response still
  carries the request's four properties and its title.
\<close>

theorem post_tasks_created_witness:
  "post_tasks example_engine example_notion (Some example_request) initial_state
     = ((201, Created ''p1'' (Own (JStr ''Buy milk'')) ''2024-01-01T00:00:00.000Z'' example_request),
        \<lparr> databaseSchema = Some example_schema,
          calls = [Databases_retrieve, Pages_create [''Name'' \<mapsto> W_title [''Buy milk'']]] \<rparr>)"
proof -
  let ?n = "example_notion"
  note g = example_getDatabaseSchema
  have w: "toWritePayload_create example_engine example_schema example_request = [''Name'' \<mapsto> W_title [''Buy milk'']]"
    by (simp add: toWritePayload_create_def create_step_def example_request_def example_schema_simps)
  have j: "js_lookup example_engine example_request ''Name'' = Some (Own (JStr ''Buy milk''))"
    "\<not> no_properties_object (Some example_request)"
    by (simp_all add: no_properties_object_def example_request_def)
  have pc: "pages_create example_notion np = Some (example_page\<lparr>page_properties := []\<rparr>)" for np
    by (simp add: example_notion_def)
  have run: "post_tasks example_engine ?n (Some example_request) initial_state
     = ((201, Created ''p1'' (Own (JStr ''Buy milk'')) ''2024-01-01T00:00:00.000Z'' example_request),
        \<lparr> databaseSchema = Some example_schema,
          calls = [Databases_retrieve, Pages_create [''Name'' \<mapsto> W_title [''Buy milk'']]] \<rparr>)"
    unfolding post_tasks_def g
    by (simp add: w j pc example_schema_simps log_call_def example_page_def)
  from post_tasks_created [OF run] show ?thesis using run by simp
qed

section \<open>The schema cache\<close>

text \<open>
  C6. With an empty cache and a failing retrieval, \<open>getDatabaseSchema\<close> throws and the
  cache stays empty, so the next call calls the store again (two retrievals in all) and,
  if that retrieval succeeds, returns the schema built from it. With an empty cache and
  a successful retrieval, the schema is returned and cached, and a later call returns
  the same schema and leaves the state, hence the list of store calls, as it was,
  whatever the store would answer. In general a call on a populated cache returns the
  cached schema and changes nothing.
\<close>

theorem getDatabaseSchema_cache:
  "(databaseSchema st = None \<and> databases_retrieve n = None \<longrightarrow>
      getDatabaseSchema n st = (Inl FetchError, log_call Databases_retrieve st)
      \<and> databaseSchema (snd (getDatabaseSchema n st)) = None
      \<and> calls (snd (getDatabaseSchema n' (snd (getDatabaseSchema n st))))
          = calls st @ [Databases_retrieve, Databases_retrieve]
      \<and> (\<forall>props. databases_retrieve n' = Some props \<longrightarrow>
            fst (getDatabaseSchema n' (snd (getDatabaseSchema n st))) = Inr (build_schema props)))
   \<and> (\<forall>props. databaseSchema st = None \<and> databases_retrieve n = Some props \<longrightarrow>
        fst (getDatabaseSchema n st) = Inr (build_schema props)
        \<and> databaseSchema (snd (getDatabaseSchema n st)) = Some (build_schema props)
        \<and> getDatabaseSchema n' (snd (getDatabaseSchema n st))
            = (Inr (build_schema props), snd (getDatabaseSchema n st)))
   \<and> (\<forall>cached. databaseSchema st = Some cached \<longrightarrow> getDatabaseSchema n' st = (Inr cached, st))"
proof -
  have hit: "\<forall>cached. databaseSchema st = Some cached \<longrightarrow> getDatabaseSchema n' st = (Inr cached, st)"
    for st :: server_state
    by (simp add: getDatabaseSchema_def)
  have fail: "databaseSchema st = None \<and> databases_retrieve n = None \<longrightarrow>
      getDatabaseSchema n st = (Inl FetchError, log_call Databases_retrieve st)"
    by (simp add: getDatabaseSchema_def Let_def)
  have miss_calls: "databaseSchema st = None \<longrightarrow>
      calls (snd (getDatabaseSchema n' st)) = calls st @ [Databases_retrieve]"
    for st :: server_state
    by (simp add: getDatabaseSchema_def Let_def log_call_def split: option.splits)
  have ok: "\<forall>props. databaseSchema st = None \<and> databases_retrieve n = Some props \<longrightarrow>
      getDatabaseSchema n st =
        (Inr (build_schema props),
         (log_call Databases_retrieve st)\<lparr>databaseSchema := Some (build_schema props)\<rparr>)"
    for st :: server_state and n :: notion
    by (simp add: getDatabaseSchema_def Let_def)
  have a: "databaseSchema st = None \<and> databases_retrieve n = None \<longrightarrow>
      getDatabaseSchema n st = (Inl FetchError, log_call Databases_retrieve st)
      \<and> databaseSchema (snd (getDatabaseSchema n st)) = None
      \<and> calls (snd (getDatabaseSchema n' (snd (getDatabaseSchema n st))))
          = calls st @ [Databases_retrieve, Databases_retrieve]
      \<and> (\<forall>props. databases_retrieve n' = Some props \<longrightarrow>
            fst (getDatabaseSchema n' (snd (getDatabaseSchema n st))) = Inr (build_schema props))"
  proof
    assume h: "databaseSchema st = None \<and> databases_retrieve n = None"
    with fail have r: "getDatabaseSchema n st = (Inl FetchError, log_call Databases_retrieve st)"
      by blast
    have e: "databaseSchema (log_call Databases_retrieve st) = None"
      using h by (simp add: log_call_def)
    have c: "calls (snd (getDatabaseSchema n' (log_call Databases_retrieve st)))
        = calls st @ [Databases_retrieve, Databases_retrieve]"
      using miss_calls [of "log_call Databases_retrieve st"] e by (simp add: log_call_def)
    have s: "\<forall>props. databases_retrieve n' = Some props \<longrightarrow>
        fst (getDatabaseSchema n' (log_call Databases_retrieve st)) = Inr (build_schema props)"
      using ok [of "log_call Databases_retrieve st" n'] e by simp
    from r e c s show "getDatabaseSchema n st = (Inl FetchError, log_call Databases_retrieve st)
      \<and> databaseSchema (snd (getDatabaseSchema n st)) = None
      \<and> calls (snd (getDatabaseSchema n' (snd (getDatabaseSchema n st))))
          = calls st @ [Databases_retrieve, Databases_retrieve]
      \<and> (\<forall>props. databases_retrieve n' = Some props \<longrightarrow>
            fst (getDatabaseSchema n' (snd (getDatabaseSchema n st))) = Inr (build_schema props))"
      by simp
  qed
  have b: "\<forall>props. databaseSchema st = None \<and> databases_retrieve n = Some props \<longrightarrow>
        fst (getDatabaseSchema n st) = Inr (build_schema props)
        \<and> databaseSchema (snd (getDatabaseSchema n st)) = Some (build_schema props)
        \<and> getDatabaseSchema n' (snd (getDatabaseSchema n st))
            = (Inr (build_schema props), snd (getDatabaseSchema n st))"
  proof (intro allI impI)
    fix props assume h: "databaseSchema st = None \<and> databases_retrieve n = Some props"
    let ?st' = "(log_call Databases_retrieve st)\<lparr>databaseSchema := Some (build_schema props)\<rparr>"
    from ok [of st n] h have r: "getDatabaseSchema n st = (Inr (build_schema props), ?st')"
      by blast
    have "databaseSchema ?st' = Some (build_schema props)" by simp
    with hit [of ?st'] have "getDatabaseSchema n' ?st' = (Inr (build_schema props), ?st')"
      by blast
    with r show "fst (getDatabaseSchema n st) = Inr (build_schema props)
        \<and> databaseSchema (snd (getDatabaseSchema n st)) = Some (build_schema props)
        \<and> getDatabaseSchema n' (snd (getDatabaseSchema n st))
            = (Inr (build_schema props), snd (getDatabaseSchema n st))"
      by simp
  qed
  from a b hit [of st] show ?thesis by blast
qed

text \<open>
  The theorem on the initial state: a failed retrieval, then a retry that succeeds; and a
  successful retrieval followed by a call while the store is failing.
\<close>

theorem getDatabaseSchema_cache_witness:
  "getDatabaseSchema failing_notion initial_state =
     (Inl FetchError, \<lparr> databaseSchema = None, calls = [Databases_retrieve] \<rparr>)
   \<and> fst (getDatabaseSchema example_notion (snd (getDatabaseSchema failing_notion initial_state)))
       = Inr example_schema
   \<and> calls (snd (getDatabaseSchema example_notion (snd (getDatabaseSchema failing_notion initial_state))))
       = [Databases_retrieve, Databases_retrieve]
   \<and> getDatabaseSchema failing_notion (snd (getDatabaseSchema example_notion initial_state))
       = (Inr example_schema, \<lparr> databaseSchema = Some example_schema, calls = [Databases_retrieve] \<rparr>)"
proof -
  have h: "databaseSchema initial_state = None" "databases_retrieve failing_notion = None"
    "databases_retrieve example_notion = Some example_database"
    "calls initial_state = []"
    by (simp_all add: initial_state_def failing_notion_def example_notion_def)
  have e: "build_schema example_database = example_schema"
    by (simp add: example_schema_def)
  have l: "log_call Databases_retrieve initial_state = \<lparr> databaseSchema = None, calls = [Databases_retrieve] \<rparr>"
    by (simp add: log_call_def initial_state_def)
  note c = getDatabaseSchema_cache [of initial_state failing_notion example_notion]
  from c h(1,2)
  have a1: "getDatabaseSchema failing_notion initial_state
      = (Inl FetchError, log_call Databases_retrieve initial_state)"
    by blast
  from c h(1,2)
  have a2: "calls (snd (getDatabaseSchema example_notion (snd (getDatabaseSchema failing_notion initial_state))))
      = calls initial_state @ [Databases_retrieve, Databases_retrieve]"
    by blast
  from c h(1,2,3)
  have a3: "fst (getDatabaseSchema example_notion (snd (getDatabaseSchema failing_notion initial_state)))
      = Inr (build_schema example_database)"
    by blast
  from getDatabaseSchema_cache [of initial_state example_notion failing_notion] h(1,3)
  have a4: "getDatabaseSchema failing_notion (snd (getDatabaseSchema example_notion initial_state))
      = (Inr (build_schema example_database), snd (getDatabaseSchema example_notion initial_state))"
    by blast
  have r1: "getDatabaseSchema failing_notion initial_state =
     (Inl FetchError, \<lparr> databaseSchema = None, calls = [Databases_retrieve] \<rparr>)"
    using a1 by (simp only: l)
  have r2: "fst (getDatabaseSchema example_notion (snd (getDatabaseSchema failing_notion initial_state)))
       = Inr example_schema"
    using a3 by (simp only: e)
  have r3: "calls (snd (getDatabaseSchema example_notion (snd (getDatabaseSchema failing_notion initial_state))))
       = [Databases_retrieve, Databases_retrieve]"
    using a2 by (simp only: h(4) append_Nil)
  have r4: "getDatabaseSchema failing_notion (snd (getDatabaseSchema example_notion initial_state))
       = (Inr example_schema, \<lparr> databaseSchema = Some example_schema, calls = [Databases_retrieve] \<rparr>)"
    using a4 by (simp only: e example_getDatabaseSchema snd_conv)
  from r1 r2 r3 r4 show ?thesis by blast
qed

section \<open>The handlers on the example database\<close>

text \<open>
  A PATCH that carries only \<open>completed: true\<close> retrieves the schema and sends the
  store the status Done, the payload of the specification's example.
\<close>

lemma patch_tasks_example:
  "patch_tasks example_engine example_notion ''p1'' (Some (JObj [(''completed'', JBool True)])) initial_state =
     ((200, Updated ''p1'' (JObj [(''completed'', JBool True)])),
      \<lparr> databaseSchema = Some example_schema,
        calls = [Databases_retrieve, Pages_update ''p1'' [''Status'' \<mapsto> W_status ''Done'']] \<rparr>)"
proof -
  let ?props = "JObj [(''completed'', JBool True)]"
  have p: "\<not> no_properties_object (Some ?props)"
    by (simp add: no_properties_object_def)
  have w: "toWritePayload_update example_engine example_schema ?props = Map.empty"
    by (simp add: toWritePayload_update_def update_step_def example_schema_simps)
  have f: "applyCompletedFlag example_schema ?props Map.empty = Inr [''Status'' \<mapsto> W_status ''Done'']"
    by (simp add: applyCompletedFlag_def example_schema_simps completed_status_name_def eval_defs)
  have u: "pages_update example_notion pid np" for pid np
    by (simp add: example_notion_def)
  show ?thesis
    unfolding patch_tasks_def example_getDatabaseSchema
    by (simp add: p w f u log_call_def)
qed

text \<open>A GET decodes the example page, with its title and its completed flag.\<close>

lemma get_tasks_example:
  "fst (get_tasks example_notion initial_state) =
     (200, Items [\<lparr> item_id = ''p1'', createdAt = ''2024-01-01T00:00:00.000Z'',
        item_properties = [(''Name'', JStr ''Buy milk''), (''Status'', JStr ''Done''), (''Notes'', JStr [])],
        title = Some (JStr ''Buy milk''), completed = Some True \<rparr>])"
proof -
  have q: "databases_query example_notion = Some [example_page]"
    by (simp add: example_notion_def)
  have d: "decoded_properties example_page =
      [(''Name'', JStr ''Buy milk''), (''Status'', JStr ''Done''), (''Notes'', JStr [])]"
    by (simp add: decoded_properties_def example_page_def name_or_null_def)
  have t: "toUniform example_schema example_page =
      \<lparr> item_id = ''p1'', createdAt = ''2024-01-01T00:00:00.000Z'',
        item_properties = [(''Name'', JStr ''Buy milk''), (''Status'', JStr ''Done''), (''Notes'', JStr [])],
        title = Some (JStr ''Buy milk''), completed = Some True \<rparr>"
    unfolding toUniform_def d
    by (simp add: example_schema_simps or_untitled_def completed_of_def eval_defs example_page_def)
  show ?thesis
    unfolding get_tasks_def example_getDatabaseSchema
    by (simp add: q t)
qed

end
